theory Spec2Isabelle
  imports Complex_Main "HOL-Library.Sublist" "HOL-Library.Log_Nat" "HOL-Library.Multiset"
begin

section \<open>Python strings\<close>

text \<open>
  A Python \<open>str\<close> is a sequence of Unicode code points: \<open>len\<close>, slicing and
  \<open>strip\<close> count code points, not bytes. A string is therefore a list of code points
  (natural numbers); \<open>ascii\<close> embeds an ASCII literal, and the few non-ASCII symbols
  of \<open>app.py\<close> are written by their code point.
\<close>

type_synonym codepoint = nat
type_synonym pystr = "codepoint list"

definition ascii :: "string \<Rightarrow> pystr" where
  "ascii s = map of_char s"

text \<open>
  \<open>str.strip()\<close> without argument removes leading and trailing white space, the
  code points for which CPython's \<open>Py_UNICODE_ISSPACE\<close> holds.
\<close>

definition is_space :: "codepoint \<Rightarrow> bool" where
  "is_space c \<longleftrightarrow>
     (0x09 \<le> c \<and> c \<le> 0x0D) \<or> (0x1C \<le> c \<and> c \<le> 0x20) \<or> c = 0x85 \<or> c = 0xA0 \<or>
     c = 0x1680 \<or> (0x2000 \<le> c \<and> c \<le> 0x200A) \<or> c = 0x2028 \<or> c = 0x2029 \<or>
     c = 0x202F \<or> c = 0x205F \<or> c = 0x3000"

definition py_strip :: "pystr \<Rightarrow> pystr" where
  "py_strip s = rev (dropWhile is_space (rev (dropWhile is_space s)))"

text \<open>\<open>sub in s\<close> on strings: \<open>sub\<close> occurs in \<open>s\<close> as a contiguous block.\<close>

fun py_in :: "pystr \<Rightarrow> pystr \<Rightarrow> bool" where
  "py_in sub [] = (sub = [])"
| "py_in sub (c # cs) = (prefix sub (c # cs) \<or> py_in sub cs)"

text \<open>
  \<open>str.upper()\<close> maps every code point on its own, to one code point or to several.
  On ASCII it maps \<open>a..z\<close> to \<open>A..Z\<close>; the mapping of the other code points belongs
  to the interpreter's Unicode tables and is a parameter \<open>U\<close> here.
\<close>

definition upper_cp :: "(codepoint \<Rightarrow> pystr) \<Rightarrow> codepoint \<Rightarrow> pystr" where
  "upper_cp U c = (if c < 128 then (if 97 \<le> c \<and> c \<le> 122 then [c - 32] else [c]) else U c)"

definition py_upper :: "(codepoint \<Rightarrow> pystr) \<Rightarrow> pystr \<Rightarrow> pystr" where
  "py_upper U s = concat (map (upper_cp U) s)"

text \<open>\<open>str(n)\<close> for a non-negative integer, as \<open>{len(docs)}\<close> renders it.\<close>

fun str_of_nat :: "nat \<Rightarrow> pystr" where
  "str_of_nat n = (if n < 10 then [48 + n] else str_of_nat (n div 10) @ [48 + n mod 10])"

declare str_of_nat.simps [simp del]

section \<open>Floats and the format \<open>.1%\<close>\<close>

text \<open>
  A score is a Python float. The model covers the finite doubles, each given by its exact
  rational value (a NaN, an infinity or a negative zero is not a value of this type), so
  that comparison of scores is comparison of rationals. \<open>round_double\<close> rounds a
  rational to the nearest double, ties to even, with the 53-bit significand and the
  smallest exponent of IEEE 754 binary64; the caller checks for overflow.
\<close>

type_synonym pyfloat = rat

definition pow2 :: "int \<Rightarrow> rat" where
  "pow2 k = (if 0 \<le> k then 2 ^ nat k else 1 / 2 ^ nat (- k))"

definition round_half_even :: "rat \<Rightarrow> int" where
  "round_half_even q =
     (let f = \<lfloor>q\<rfloor>; r = q - of_int f
      in if r < 1 / 2 then f else if 1 / 2 < r then f + 1 else if even f then f else f + 1)"

definition ilog2 :: "rat \<Rightarrow> int" where
  "ilog2 q =
     (let (p, d) = quotient_of q; k = bitlen p - bitlen d
      in if pow2 k \<le> q then k else k - 1)"

definition round_double :: "rat \<Rightarrow> rat" where
  "round_double q =
     (if q = 0 then 0
      else let u = max (ilog2 \<bar>q\<bar> - 52) (- 1074);
               m = round_half_even (\<bar>q\<bar> / pow2 u)
           in sgn q * of_int m * pow2 u)"

text \<open>
  \<open>format(x, ".1%")\<close>: the float is multiplied by 100 in double arithmetic, the product
  is rounded to one decimal (correctly, ties to even) and followed by a percent sign.
\<close>

definition fmt_percent1 :: "pyfloat \<Rightarrow> pystr" where
  "fmt_percent1 x =
     (let y = round_double (x * 100)
      in if pow2 1024 \<le> \<bar>y\<bar> then (if y < 0 then ascii ''-inf%'' else ascii ''inf%'')
         else let n = nat (round_half_even (\<bar>y\<bar> * 10))
              in (if x < 0 then ascii ''-'' else []) @
                 str_of_nat (n div 10) @ ascii ''.'' @ str_of_nat (n mod 10) @ ascii ''%'')"

section \<open>Exceptions, classifier results and the environment\<close>

text \<open>
  An exception caught by \<open>except Exception as e\<close> carries the text \<open>str(e)\<close>.
\<close>

datatype py_exception =
    NameError pystr
  | IndexError pystr
  | ValueError pystr
  | Raised pystr

fun str_exception :: "py_exception \<Rightarrow> pystr" where
  "str_exception (NameError m) = m"
| "str_exception (IndexError m) = m"
| "str_exception (ValueError m) = m"
| "str_exception (Raised m) = m"

text \<open>One entry of a classification result: the dictionary with keys \<open>label\<close> and \<open>score\<close>.\<close>

record class_entry =
  label :: pystr
  score :: pyfloat

text \<open>
  The module-level names that \<open>analyze_news\<close> reads. \<open>retriever\<close> is bound only when
  the vector store was loaded (otherwise the name is undefined); \<open>llm\<close> is always bound,
  to the primary or to the fallback pipeline. Each external call either raises or returns.
  With \<open>return_all_scores=True\<close> the pipeline returns one list of entries per input.
\<close>

record 'd env =
  retriever :: "(pystr \<Rightarrow> py_exception + 'd list) option"
  llm :: "pystr \<Rightarrow> py_exception + class_entry list list"
  unicode_upper :: "codepoint \<Rightarrow> pystr"

text \<open>The external calls that a run issues, in order, each with its argument.\<close>

datatype call = RetrieverCall pystr | LlmCall pystr

section \<open>The built-in \<open>max\<close> with a key\<close>

text \<open>
  \<open>max(xs, key=k)\<close> keeps the first item and replaces it only by an item whose key is
  strictly greater; on an empty list it raises \<open>ValueError\<close>. The wording of that
  message is the interpreter's and differs between CPython versions; no property below
  depends on it.
\<close>

fun max_loop :: "('a \<Rightarrow> pyfloat) \<Rightarrow> 'a \<Rightarrow> 'a list \<Rightarrow> 'a" where
  "max_loop k best [] = best"
| "max_loop k best (x # xs) = max_loop k (if k best < k x then x else best) xs"

definition py_max :: "('a \<Rightarrow> pyfloat) \<Rightarrow> 'a list \<Rightarrow> py_exception + 'a" where
  "py_max k xs =
     (case xs of
        [] \<Rightarrow> Inl (ValueError (ascii ''max() arg is an empty sequence''))
      | x # rest \<Rightarrow> Inr (max_loop k x rest))"

section \<open>The texts of \<open>analyze_news\<close>\<close>

definition msg_empty :: pystr where
  "msg_empty = [0x274C] @ ascii '' Please enter some news content to analyze.''"

definition msg_too_short :: pystr where
  "msg_too_short =
     [0x274C] @ ascii '' Please provide more substantial news content (at least 10 characters).''"

definition error_report :: "py_exception \<Rightarrow> pystr" where
  "error_report e =
     [0x274C] @ ascii '' Error analyzing content: '' @ str_exception e @
     ascii ''\<newline>\<newline>Please try again with different text.''"

definition LIKELY_CREDIBLE :: pystr where
  "LIKELY_CREDIBLE = [0x2705] @ ascii '' LIKELY CREDIBLE''"

definition POTENTIALLY_MISLEADING :: pystr where
  "POTENTIALLY_MISLEADING = [0x1F6A8] @ ascii '' POTENTIALLY MISLEADING''"

definition CREDIBLE :: pystr where
  "CREDIBLE = [0x2705] @ ascii '' CREDIBLE''"

definition SUSPICIOUS :: pystr where
  "SUSPICIOUS = [0x1F6A8] @ ascii '' SUSPICIOUS''"

definition green :: pystr where
  "green = ascii ''#22c55e''"

definition red :: pystr where
  "red = ascii ''#ef4444''"

text \<open>Lines 50 to 59: the headline label and its colour, from the best entry's label.\<close>

definition credibility :: "(codepoint \<Rightarrow> pystr) \<Rightarrow> pystr \<Rightarrow> pystr \<times> pystr" where
  "credibility U l =
     (if l = ascii ''LABEL_1'' \<or> py_in (ascii ''REAL'') (py_upper U l)
        then (LIKELY_CREDIBLE, green)
      else if l = ascii ''LABEL_0'' \<or> py_in (ascii ''FAKE'') (py_upper U l)
        then (POTENTIALLY_MISLEADING, red)
      else (if l = ascii ''POSITIVE'' then CREDIBLE else SUSPICIOUS,
            if l = ascii ''POSITIVE'' then green else red))"

text \<open>Lines 62 to 74: the f-string, with its four interpolated values.\<close>

definition analysis_head :: "pystr \<Rightarrow> pystr \<Rightarrow> pyfloat \<Rightarrow> nat \<Rightarrow> pystr" where
  "analysis_head lab color confidence ndocs =
     ascii ''\<newline>'' @
     ascii ''## '' @ [0x1F4CA] @ ascii '' ANALYSIS RESULTS\<newline>'' @
     ascii ''\<newline>'' @
     ascii ''<div style='background-color: '' @ color @
     ascii ''20; padding: 15px; border-radius: 10px; border-left: 4px solid '' @ color @
     ascii '';'>\<newline>'' @
     ascii ''<h3 style='color: '' @ color @ ascii ''; margin: 0;'>'' @ lab @
     ascii ''</h3>\<newline>'' @
     ascii ''</div>\<newline>'' @
     ascii ''\<newline>'' @
     ascii ''**Confidence Level:** '' @ fmt_percent1 confidence @ ascii ''  \<newline>'' @
     ascii ''**Similar Patterns Found:** '' @ str_of_nat ndocs @
     ascii '' matches in our database\<newline>'' @
     ascii ''\<newline>'' @
     ascii ''### '' @ [0x1F50D] @ ascii '' ANALYSIS\<newline>'' @
     ascii ''This content appears **'' @
     (if py_in (ascii ''CREDIBLE'') lab then ascii ''credible'' else ascii ''suspicious'') @
     ascii ''** based on linguistic patterns and comparison with our database of verified news examples.\<newline>''"

definition recommendations :: pystr where
  "recommendations =
     ascii ''\<newline>'' @
     ascii ''### '' @ [0x26A0, 0xFE0F] @ ascii '' RECOMMENDATIONS\<newline>'' @
     ascii ''\<newline>'' @
     [0x2022] @ ascii '' **Verify with reputable sources** like AP News, Reuters, or BBC\<newline>'' @
     [0x2022] @ ascii '' **Check the publication date** - old news can be repurposed\<newline>'' @
     [0x2022] @ ascii '' **Look for official statements** from relevant authorities\<newline>'' @
     [0x2022] @ ascii '' **Reverse image search** any accompanying photos\<newline>'' @
     [0x2022] @ ascii '' **Use fact-checking sites** like Snopes or FactCheck.org\<newline>''"

definition best_practices :: pystr where
  "best_practices =
     ascii ''\<newline>'' @
     ascii ''### '' @ [0x1F4A1] @ ascii '' BEST PRACTICES\<newline>'' @
     ascii ''\<newline>'' @
     [0x2022] @ ascii '' **Cross-reference** with multiple reliable sources\<newline>'' @
     [0x2022] @ ascii '' **Check author credentials** and publication history\<newline>'' @
     [0x2022] @ ascii '' **Be aware of potential biases** in the reporting\<newline>'' @
     [0x2022] @ ascii '' **Look for supporting evidence** and citations\<newline>'' @
     [0x2022] @ ascii '' **Consider the tone** - credible news is typically neutral\<newline>''"

definition literacy_tip :: pystr where
  "literacy_tip =
     ascii ''\<newline>'' @
     ascii ''---\<newline>'' @
     ascii ''\<newline>'' @
     ascii ''**'' @ [0x1F393] @
     ascii '' Digital Literacy Tip:** Always approach online information with healthy skepticism and verify before sharing.\<newline>''"

text \<open>Lines 77 to 96: the advice block, chosen by the headline label.\<close>

definition advice :: "pystr \<Rightarrow> pystr" where
  "advice lab =
     (if py_in (ascii ''MISLEADING'') lab \<or> py_in (ascii ''SUSPICIOUS'') lab
      then recommendations else best_practices)"

text \<open>Lines 47 to 105: the report built from the best entry and the retrieved documents.\<close>

definition build_report :: "(codepoint \<Rightarrow> pystr) \<Rightarrow> class_entry \<Rightarrow> nat \<Rightarrow> pystr" where
  "build_report U best_match ndocs =
     (let confidence = score best_match;
          (lab, color) = credibility U (label best_match)
      in analysis_head lab color confidence ndocs @ advice lab @ literacy_tip)"

section \<open>\<open>analyze_news\<close>\<close>

text \<open>
  The body of the \<open>try\<close> block: the value it returns or the exception it raises, with the
  external calls it issued. An unbound \<open>retriever\<close> raises \<open>NameError\<close> before any call;
  \<open>[0]\<close> on an empty list raises \<open>IndexError\<close>.
\<close>

definition try_body :: "'d env \<Rightarrow> pystr \<Rightarrow> (py_exception + pystr) \<times> call list" where
  "try_body E text =
     (case retriever E of
        None \<Rightarrow> (Inl (NameError (ascii ''name 'retriever' is not defined'')), [])
      | Some get_relevant_documents \<Rightarrow>
          (case get_relevant_documents text of
             Inl e \<Rightarrow> (Inl e, [RetrieverCall text])
           | Inr docs \<Rightarrow>
               (let calls = [RetrieverCall text, LlmCall (take 512 text)]
                in case llm E (take 512 text) of
                     Inl e \<Rightarrow> (Inl e, calls)
                   | Inr results \<Rightarrow>
                       (case results of
                          [] \<Rightarrow> (Inl (IndexError (ascii ''list index out of range'')), calls)
                        | result # _ \<Rightarrow>
                            (case py_max score result of
                               Inl e \<Rightarrow> (Inl e, calls)
                             | Inr best_match \<Rightarrow>
                                 (Inr (build_report (unicode_upper E) best_match (length docs)),
                                  calls))))))"

text \<open>The function: what it returns, and the external calls of the run.\<close>

definition analyze_news :: "'d env \<Rightarrow> pystr \<Rightarrow> pystr \<times> call list" where
  "analyze_news E text =
     (if py_strip text = [] then (msg_empty, [])
      else if length (py_strip text) < 10 then (msg_too_short, [])
      else (case try_body E text of
              (Inl e, calls) \<Rightarrow> (error_report e, calls)
            | (Inr analysis, calls) \<Rightarrow> (analysis, calls)))"

section \<open>The verdict category\<close>

text \<open>
  The source has no variable for the category of the verdict. It decides the category from
  the headline label, by the test \<open>'CREDIBLE' in label\<close> of line 73, which chooses the
  word \<open>credible\<close> or \<open>suspicious\<close> of the report.
\<close>

datatype category = Credible | Misleading

definition category_of :: "pystr \<Rightarrow> category" where
  "category_of lab = (if py_in (ascii ''CREDIBLE'') lab then Credible else Misleading)"

section \<open>Example runs\<close>

text \<open>
  An environment whose retriever and classifier answer every call in the same way, with
  the identity as upper-case mapping outside ASCII. \<open>entry l q\<close> is the dictionary
  \<open>{'label': l, 'score': q}\<close> with \<open>q\<close> written as a Python float literal, which
  denotes the nearest double.
\<close>

definition identity_upper :: "codepoint \<Rightarrow> pystr" where
  "identity_upper c = [c]"

definition fixed_env ::
    "(py_exception + unit list) option \<Rightarrow> (py_exception + class_entry list list) \<Rightarrow> unit env" where
  "fixed_env docs res =
     \<lparr>retriever = (case docs of None \<Rightarrow> None | Some d \<Rightarrow> Some (\<lambda>_. d)),
      llm = (\<lambda>_. res),
      unicode_upper = identity_upper\<rparr>"

definition entry :: "string \<Rightarrow> rat \<Rightarrow> class_entry" where
  "entry l q = \<lparr>label = ascii l, score = round_double q\<rparr>"

definition three_docs :: "(py_exception + unit list) option" where
  "three_docs = Some (Inr [(), (), ()])"

definition index_down :: "(py_exception + unit list) option" where
  "index_down = Some (Inl (Raised (ascii ''Could not connect to the index'')))"

definition classifier_down :: "py_exception + class_entry list list" where
  "classifier_down = Inl (Raised (ascii ''model is unreachable''))"

definition padded_text :: pystr where
  "padded_text = ascii ''  Moon base opens to tourists ''"

definition scenario_label :: "py_exception + class_entry list list" where
  "scenario_label = Inr [[entry ''LABEL_1'' (92 / 100), entry ''LABEL_0'' (8 / 100)]]"

definition scenario_fake :: "py_exception + class_entry list list" where
  "scenario_fake = Inr [[entry ''FAKE'' (81 / 100), entry ''REAL'' (19 / 100)]]"

definition other_text :: pystr where
  "other_text = ascii ''Celebrity claims vaccine contains microchips''"

definition scenario_neutral :: "py_exception + class_entry list list" where
  "scenario_neutral = Inr [[entry ''NEUTRAL'' (9 / 10)]]"

definition scenario_mixed :: "py_exception + class_entry list list" where
  "scenario_mixed = Inr [[entry ''fake-or-real'' (9 / 10)]]"

section \<open>Strings: containment and trimming\<close>

lemma py_in_sublist: "py_in sub s \<longleftrightarrow> sublist sub s"
  by (induction s) (simp_all add: sublist_Cons_right)

lemma py_in_set: "py_in sub s \<Longrightarrow> set sub \<subseteq> set s"
  by (simp add: py_in_sublist set_mono_sublist)

lemma py_in_middle: "py_in sub (a @ sub @ b)"
  by (simp add: py_in_sublist)

lemma py_strip_Nil_iff: "py_strip s = [] \<longleftrightarrow> (\<forall>c\<in>set s. is_space c)"
proof
  assume a: "py_strip s = []"
  have "dropWhile is_space s = []"
  proof (rule ccontr)
    assume n: "dropWhile is_space s \<noteq> []"
    then have "\<not> is_space (hd (dropWhile is_space s))"
      by (rule hd_dropWhile)
    moreover have "hd (dropWhile is_space s) \<in> set (dropWhile is_space s)"
      using n by simp
    ultimately show False
      using a by (simp add: py_strip_def)
  qed
  then show "\<forall>c\<in>set s. is_space c"
    by (simp only: dropWhile_eq_Nil_conv)
next
  assume "\<forall>c\<in>set s. is_space c"
  then have "dropWhile is_space s = []"
    by (simp only: dropWhile_eq_Nil_conv)
  then show "py_strip s = []"
    by (simp add: py_strip_def del: dropWhile_eq_Nil_conv)
qed

section \<open>Input validation\<close>

text \<open>
  Claim C4. An input that is empty or consists of white space only is answered with the
  message for empty input; an input whose trimmed length is positive and below 10 is
  answered with the message for too short input. In both cases the run issues no external
  call: neither the retriever nor the classifier is asked.
\<close>

theorem validation_short_circuits:
  "((\<forall>c\<in>set text. is_space c) \<longrightarrow> analyze_news E text = (msg_empty, [])) \<and>
   (0 < length (py_strip text) \<and> length (py_strip text) < 10 \<longrightarrow>
      analyze_news E text = (msg_too_short, []))"
  by (auto simp: analyze_news_def py_strip_Nil_iff)

theorem validation_short_circuits_witness:
  "py_strip (ascii '' \<newline>  '') = [] \<and>
   analyze_news (fixed_env three_docs (Inr [[entry ''FAKE'' (81 / 100)]])) (ascii '' \<newline>  '')
     = (msg_empty, []) \<and>
   0 < length (py_strip (ascii ''  Moon!  '')) \<and> length (py_strip (ascii ''  Moon!  '')) < 10 \<and>
   analyze_news (fixed_env three_docs (Inr [[entry ''FAKE'' (81 / 100)]])) (ascii ''  Moon!  '')
     = (msg_too_short, [])"
  using validation_short_circuits [of "ascii '' \<newline>  ''"
          "fixed_env three_docs (Inr [[entry ''FAKE'' (81 / 100)]])"]
        validation_short_circuits [of "ascii ''  Moon!  ''"
          "fixed_env three_docs (Inr [[entry ''FAKE'' (81 / 100)]])"]
  by (simp add: ascii_def is_space_def py_strip_def)

section \<open>Selecting the best entry\<close>

lemma max_loop_split:
  "\<exists>pre m post. b # xs = pre @ m # post \<and> max_loop k b xs = m \<and>
     (\<forall>x\<in>set pre. k x < k m) \<and> (\<forall>x\<in>set post. k x \<le> k m)"
proof (induction xs arbitrary: b)
  case Nil
  show ?case by (intro exI [of _ "[]"] exI [of _ b]) simp
next
  case (Cons x xs)
  show ?case
  proof (cases "k b < k x")
    case True
    from Cons.IH [of x] obtain pre m post where
      s: "x # xs = pre @ m # post" and m: "max_loop k x xs = m" and
      lt: "\<forall>y\<in>set pre. k y < k m" and le: "\<forall>y\<in>set post. k y \<le> k m"
      by blast
    have "x \<in> set (pre @ m # post)"
      using s by (metis list.set_intros(1))
    then have "k x \<le> k m"
      using lt le by auto
    then have "\<forall>y\<in>set (b # pre). k y < k m"
      using True lt by auto
    moreover have "b # x # xs = (b # pre) @ m # post"
      using s by simp
    moreover have "max_loop k b (x # xs) = m"
      using True m by simp
    ultimately show ?thesis
      using le by blast
  next
    case False
    from Cons.IH [of b] obtain pre m post where
      s: "b # xs = pre @ m # post" and m: "max_loop k b xs = m" and
      lt: "\<forall>y\<in>set pre. k y < k m" and le: "\<forall>y\<in>set post. k y \<le> k m"
      by blast
    have r: "max_loop k b (x # xs) = m"
      using False m by simp
    show ?thesis
    proof (cases pre)
      case Nil
      then have "b # x # xs = [] @ m # (x # post)" and "k x \<le> k m"
        using s False by auto
      then show ?thesis
        using r le by (metis empty_iff list.set(1) set_ConsD)
    next
      case (Cons p pre')
      then have "b # x # xs = (b # x # pre') @ m # post" and "k b < k m" and "set pre' \<subseteq> set pre"
        using s lt by auto
      moreover from this have "k x < k m"
        using False by simp
      ultimately have "\<forall>y\<in>set (b # x # pre'). k y < k m"
        using lt by auto
      with \<open>b # x # xs = (b # x # pre') @ m # post\<close> show ?thesis
        using r le by blast
    qed
  qed
qed

lemma py_max_split:
  assumes "xs \<noteq> []"
  shows "\<exists>pre m post. xs = pre @ m # post \<and> py_max k xs = Inr m \<and>
     (\<forall>x\<in>set pre. k x < k m) \<and> (\<forall>x\<in>set post. k x \<le> k m)"
proof -
  from assms obtain b rest where xs: "xs = b # rest"
    by (cases xs) auto
  from max_loop_split [of b rest k] show ?thesis
    by (simp add: xs py_max_def)
qed

lemma py_max_label:
  assumes "m \<in> set xs" and "\<forall>x\<in>set xs. label x \<noteq> label m \<longrightarrow> score x < score m"
  shows "\<exists>b. py_max score xs = Inr b \<and> label b = label m"
proof -
  from assms(1) have "xs \<noteq> []" by auto
  from py_max_split [OF this, of score] obtain pre b post where
    s: "xs = pre @ b # post" and b: "py_max score xs = Inr b" and
    lt: "\<forall>x\<in>set pre. score x < score b" and le: "\<forall>x\<in>set post. score x \<le> score b"
    by blast
  have "score m \<le> score b"
    using assms(1) s lt le by auto
  moreover have "b \<in> set xs"
    using s by simp
  ultimately have "label b = label m"
    using assms(2) by force
  then show ?thesis
    using b by simp
qed

text \<open>
  Claim C3. The normalizer selects the entry with the maximum score, and among several
  entries with the maximum score the first one in the original order: the result splits
  into the entries before the selected one, all with a strictly smaller score, the
  selected entry, and the entries after it, none with a greater score. When one label
  holds the maximum score alone (every entry with another label has a strictly smaller
  score), any reordering of the result selects an entry with that label, hence the same
  headline label and colour.
\<close>

theorem normalizer_selects_first_maximum:
  "(xs \<noteq> [] \<longrightarrow>
      (\<exists>pre m post. xs = pre @ m # post \<and> py_max score xs = Inr m \<and>
         (\<forall>x\<in>set pre. score x < score m) \<and> (\<forall>x\<in>set post. score x \<le> score m))) \<and>
   (mset ys = mset xs \<and> m \<in> set xs \<and>
      (\<forall>x\<in>set xs. label x \<noteq> label m \<longrightarrow> score x < score m) \<longrightarrow>
      (\<exists>b b'. py_max score xs = Inr b \<and> py_max score ys = Inr b' \<and>
         label b = label m \<and> label b' = label m \<and>
         credibility U (label b') = credibility U (label b)))"
proof (intro conjI impI)
  assume "xs \<noteq> []"
  then show "\<exists>pre m post. xs = pre @ m # post \<and> py_max score xs = Inr m \<and>
         (\<forall>x\<in>set pre. score x < score m) \<and> (\<forall>x\<in>set post. score x \<le> score m)"
    by (rule py_max_split)
next
  assume a: "mset ys = mset xs \<and> m \<in> set xs \<and>
      (\<forall>x\<in>set xs. label x \<noteq> label m \<longrightarrow> score x < score m)"
  then have e: "set ys = set xs"
    by (metis set_mset_mset)
  from a py_max_label [of m xs] obtain b where
    b: "py_max score xs = Inr b" "label b = label m" by blast
  from a e py_max_label [of m ys] obtain b' where
    b': "py_max score ys = Inr b'" "label b' = label m" by auto
  from b b' show "\<exists>b b'. py_max score xs = Inr b \<and> py_max score ys = Inr b' \<and>
         label b = label m \<and> label b' = label m \<and>
         credibility U (label b') = credibility U (label b)"
    by simp
qed


theorem normalizer_selects_first_maximum_witness:
  "[\<lparr>label = ascii ''FAKE'', score = 1 / 4\<rparr>, \<lparr>label = ascii ''REAL'', score = 3 / 8\<rparr>,
    \<lparr>label = ascii ''OTHER'', score = 3 / 8\<rparr>] \<noteq> [] \<and>
   py_max score [\<lparr>label = ascii ''FAKE'', score = 1 / 4\<rparr>, \<lparr>label = ascii ''REAL'', score = 3 / 8\<rparr>,
    \<lparr>label = ascii ''OTHER'', score = 3 / 8\<rparr>] = Inr \<lparr>label = ascii ''REAL'', score = 3 / 8\<rparr> \<and>
   mset [\<lparr>label = ascii ''REAL'', score = 3 / 4\<rparr>, \<lparr>label = ascii ''FAKE'', score = 1 / 4\<rparr>]
     = mset [\<lparr>label = ascii ''FAKE'', score = 1 / 4\<rparr>, \<lparr>label = ascii ''REAL'', score = 3 / 4\<rparr>] \<and>
   (\<exists>b b'. py_max score [\<lparr>label = ascii ''FAKE'', score = 1 / 4\<rparr>, \<lparr>label = ascii ''REAL'', score = 3 / 4\<rparr>] = Inr b \<and>
      py_max score [\<lparr>label = ascii ''REAL'', score = 3 / 4\<rparr>, \<lparr>label = ascii ''FAKE'', score = 1 / 4\<rparr>] = Inr b' \<and>
      label b = ascii ''REAL'' \<and> label b' = ascii ''REAL'' \<and>
      credibility identity_upper (label b') = credibility identity_upper (label b))"
  using normalizer_selects_first_maximum [of
          "[\<lparr>label = ascii ''FAKE'', score = 1 / 4\<rparr>, \<lparr>label = ascii ''REAL'', score = 3 / 8\<rparr>,
            \<lparr>label = ascii ''OTHER'', score = 3 / 8\<rparr>]"
          "[]" "\<lparr>label = ascii ''REAL'', score = 3 / 8\<rparr>" identity_upper]
        normalizer_selects_first_maximum [of
          "[\<lparr>label = ascii ''FAKE'', score = 1 / 4\<rparr>, \<lparr>label = ascii ''REAL'', score = 3 / 4\<rparr>]"
          "[\<lparr>label = ascii ''REAL'', score = 3 / 4\<rparr>, \<lparr>label = ascii ''FAKE'', score = 1 / 4\<rparr>]"
          "\<lparr>label = ascii ''REAL'', score = 3 / 4\<rparr>" identity_upper]
  by (simp add: py_max_def ascii_def)

section \<open>The code points of the report\<close>

lemma ascii_below: "c \<in> set (ascii s) \<Longrightarrow> c < 256"
  by (auto simp: ascii_def)

lemma str_of_nat_below: "c \<in> set (str_of_nat n) \<Longrightarrow> c < 256"
proof (induction n arbitrary: c rule: str_of_nat.induct)
  case (1 n)
  show ?case
  proof (cases "n < 10")
    case True
    with "1.prems" show ?thesis
      by (simp add: str_of_nat.simps [of n])
  next
    case False
    have "n mod 10 < 10" by simp
    then have "48 + n mod 10 < 256" by linarith
    with False "1.prems" "1.IH" show ?thesis
      by (auto simp: str_of_nat.simps [of n])
  qed
qed

lemma fmt_percent1_below: "c \<in> set (fmt_percent1 x) \<Longrightarrow> c < 256"
  by (auto simp: fmt_percent1_def Let_def dest: ascii_below str_of_nat_below split: if_splits)

lemma headline_cases:
  "fst (credibility U l) = LIKELY_CREDIBLE \<or> fst (credibility U l) = POTENTIALLY_MISLEADING \<or>
   fst (credibility U l) = CREDIBLE \<or> fst (credibility U l) = SUSPICIOUS"
  by (simp add: credibility_def)

lemma colour_cases: "snd (credibility U l) = green \<or> snd (credibility U l) = red"
  by (simp add: credibility_def)

lemma headline_chars:
  "c \<in> set (fst (credibility U l)) \<Longrightarrow> c < 256 \<or> c = 0x2705 \<or> c = 0x1F6A8"
  using headline_cases [of U l]
  by (auto simp: LIKELY_CREDIBLE_def POTENTIALLY_MISLEADING_def CREDIBLE_def SUSPICIOUS_def
      dest: ascii_below)

lemma colour_chars: "c \<in> set (snd (credibility U l)) \<Longrightarrow> c < 256"
  using colour_cases [of U l] by (auto simp: green_def red_def dest: ascii_below)

lemma analysis_head_chars:
  "c \<in> set (analysis_head lab color conf n) \<Longrightarrow>
     c < 256 \<or> c = 0x1F4CA \<or> c = 0x1F50D \<or> c \<in> set lab \<or> c \<in> set color"
  unfolding analysis_head_def
  by (auto dest: ascii_below str_of_nat_below fmt_percent1_below split: if_splits)

lemma recommendations_chars:
  "c \<in> set recommendations \<Longrightarrow> c < 256 \<or> c = 0x26A0 \<or> c = 0xFE0F \<or> c = 0x2022"
  unfolding recommendations_def by (auto dest: ascii_below)

lemma best_practices_chars:
  "c \<in> set best_practices \<Longrightarrow> c < 256 \<or> c = 0x1F4A1 \<or> c = 0x2022"
  unfolding best_practices_def by (auto dest: ascii_below)

lemma literacy_tip_chars: "c \<in> set literacy_tip \<Longrightarrow> c < 256 \<or> c = 0x1F393"
  unfolding literacy_tip_def by (auto dest: ascii_below)

lemma bulb_in_best_practices: "0x1F4A1 \<in> set best_practices"
  by (simp add: best_practices_def)

lemma warning_in_recommendations: "0x26A0 \<in> set recommendations"
  by (simp add: recommendations_def)

section \<open>Headline labels and advice blocks\<close>

lemma headline_tests:
  "py_in (ascii ''CREDIBLE'') LIKELY_CREDIBLE" "py_in (ascii ''CREDIBLE'') CREDIBLE"
  "\<not> py_in (ascii ''CREDIBLE'') POTENTIALLY_MISLEADING" "\<not> py_in (ascii ''CREDIBLE'') SUSPICIOUS"
  "\<not> py_in (ascii ''MISLEADING'') LIKELY_CREDIBLE" "\<not> py_in (ascii ''MISLEADING'') CREDIBLE"
  "py_in (ascii ''MISLEADING'') POTENTIALLY_MISLEADING" "\<not> py_in (ascii ''MISLEADING'') SUSPICIOUS"
  "\<not> py_in (ascii ''SUSPICIOUS'') LIKELY_CREDIBLE" "\<not> py_in (ascii ''SUSPICIOUS'') CREDIBLE"
  "\<not> py_in (ascii ''SUSPICIOUS'') POTENTIALLY_MISLEADING" "py_in (ascii ''SUSPICIOUS'') SUSPICIOUS"
  by (simp_all add: LIKELY_CREDIBLE_def POTENTIALLY_MISLEADING_def CREDIBLE_def SUSPICIOUS_def
      ascii_def)

lemma headlines_distinct:
  "LIKELY_CREDIBLE \<noteq> CREDIBLE" "LIKELY_CREDIBLE \<noteq> POTENTIALLY_MISLEADING"
  "LIKELY_CREDIBLE \<noteq> SUSPICIOUS" "CREDIBLE \<noteq> POTENTIALLY_MISLEADING"
  "CREDIBLE \<noteq> SUSPICIOUS" "POTENTIALLY_MISLEADING \<noteq> SUSPICIOUS"
  by (simp_all add: LIKELY_CREDIBLE_def POTENTIALLY_MISLEADING_def CREDIBLE_def SUSPICIOUS_def
      ascii_def)

lemma advice_of_headline:
  "advice LIKELY_CREDIBLE = best_practices" "advice CREDIBLE = best_practices"
  "advice POTENTIALLY_MISLEADING = recommendations" "advice SUSPICIOUS = recommendations"
  by (simp_all add: advice_def headline_tests)

lemma category_of_headline:
  "category_of LIKELY_CREDIBLE = Credible" "category_of CREDIBLE = Credible"
  "category_of POTENTIALLY_MISLEADING = Misleading" "category_of SUSPICIOUS = Misleading"
  by (simp_all add: category_of_def headline_tests)

lemma advice_blocks_differ: "recommendations \<noteq> best_practices"
proof
  assume "recommendations = best_practices"
  then have "0x1F4A1 \<in> set recommendations"
    using bulb_in_best_practices by simp
  then show False
    by (auto dest: recommendations_chars)
qed

lemma build_report_eq:
  "build_report U b n =
     analysis_head (fst (credibility U (label b))) (snd (credibility U (label b))) (score b) n @
     advice (fst (credibility U (label b))) @ literacy_tip"
  by (simp add: build_report_def Let_def split: prod.splits)

lemma no_bulb_in_head:
  "0x1F4A1 \<notin> set (analysis_head (fst (credibility U l)) (snd (credibility U l)) x n)"
  by (auto dest!: analysis_head_chars dest: headline_chars colour_chars)

lemma no_warning_in_head:
  "0x26A0 \<notin> set (analysis_head (fst (credibility U l)) (snd (credibility U l)) x n)"
  by (auto dest!: analysis_head_chars dest: headline_chars colour_chars)

lemma report_has_recommendations:
  "py_in recommendations (build_report U b n) \<longleftrightarrow>
     advice (fst (credibility U (label b))) = recommendations"
proof
  assume a: "advice (fst (credibility U (label b))) = recommendations"
  show "py_in recommendations (build_report U b n)"
    unfolding build_report_eq a by (rule py_in_middle)
next
  assume p: "py_in recommendations (build_report U b n)"
  show "advice (fst (credibility U (label b))) = recommendations"
  proof (rule ccontr)
    assume "advice (fst (credibility U (label b))) \<noteq> recommendations"
    then have a: "advice (fst (credibility U (label b))) = best_practices"
      by (simp add: advice_def split: if_splits)
    from py_in_set [OF p] warning_in_recommendations
    have "0x26A0 \<in> set (build_report U b n)"
      by blast
    then show False
      unfolding build_report_eq a using no_warning_in_head [of U "label b" "score b" n]
      by (auto dest: best_practices_chars literacy_tip_chars)
  qed
qed

lemma report_has_best_practices:
  "py_in best_practices (build_report U b n) \<longleftrightarrow>
     advice (fst (credibility U (label b))) = best_practices"
proof
  assume a: "advice (fst (credibility U (label b))) = best_practices"
  show "py_in best_practices (build_report U b n)"
    unfolding build_report_eq a by (rule py_in_middle)
next
  assume p: "py_in best_practices (build_report U b n)"
  show "advice (fst (credibility U (label b))) = best_practices"
  proof (rule ccontr)
    assume "advice (fst (credibility U (label b))) \<noteq> best_practices"
    then have a: "advice (fst (credibility U (label b))) = recommendations"
      by (simp add: advice_def split: if_splits)
    from py_in_set [OF p] bulb_in_best_practices
    have "0x1F4A1 \<in> set (build_report U b n)"
      by blast
    then show False
      unfolding build_report_eq a using no_bulb_in_head [of U "label b" "score b" n]
      by (auto dest: recommendations_chars literacy_tip_chars)
  qed
qed

section \<open>Runs of \<open>analyze_news\<close>\<close>

lemma analyze_news_valid:
  assumes "10 \<le> length (py_strip text)"
  shows "analyze_news E text =
     (case try_body E text of
        (Inl e, calls) \<Rightarrow> (error_report e, calls)
      | (Inr analysis, calls) \<Rightarrow> (analysis, calls))"
  using assms by (auto simp: analyze_news_def)

lemma try_body_unbound:
  "retriever E = None \<Longrightarrow>
     try_body E text = (Inl (NameError (ascii ''name 'retriever' is not defined'')), [])"
  by (simp add: try_body_def)

lemma try_body_lookup_error:
  "retriever E = Some r \<Longrightarrow> r text = Inl e \<Longrightarrow> try_body E text = (Inl e, [RetrieverCall text])"
  by (simp add: try_body_def)

lemma try_body_classifier_error:
  "retriever E = Some r \<Longrightarrow> r text = Inr docs \<Longrightarrow> llm E (take 512 text) = Inl e \<Longrightarrow>
     try_body E text = (Inl e, [RetrieverCall text, LlmCall (take 512 text)])"
  by (simp add: try_body_def)

lemma try_body_classified:
  "retriever E = Some r \<Longrightarrow> r text = Inr docs \<Longrightarrow>
   llm E (take 512 text) = Inr (result # rest) \<Longrightarrow>
     try_body E text =
       (map_sum id (\<lambda>best. build_report (unicode_upper E) best (length docs)) (py_max score result),
        [RetrieverCall text, LlmCall (take 512 text)])"
  by (simp add: try_body_def Let_def split: sum.splits)

lemma unbound_retriever_aborts_analysis:
  assumes "10 \<le> length (py_strip text)" and "retriever E = None"
  shows "analyze_news E text =
     (error_report (NameError (ascii ''name 'retriever' is not defined'')), [])"
  using assms by (simp add: analyze_news_valid try_body_unbound)

lemma empty_result_is_reported:
  assumes "10 \<le> length (py_strip text)" and "retriever E = Some r" and "r text = Inr docs"
    and "llm E (take 512 text) = Inr ([] # rest)"
  shows "analyze_news E text =
     (error_report (ValueError (ascii ''max() arg is an empty sequence'')),
      [RetrieverCall text, LlmCall (take 512 text)])"
  using assms
  by (simp add: analyze_news_valid try_body_classified [of E r "text" docs "[]" rest] py_max_def)

lemma report_starts_with_newline: "\<exists>t. build_report U b n = 10 # t"
  by (simp add: build_report_eq analysis_head_def ascii_def)

lemma error_report_not_report: "error_report e \<noteq> build_report U b n"
  using report_starts_with_newline [of U b n] by (auto simp: error_report_def)

lemma error_report_parts:
  "py_in (str_exception e) (error_report e)"
  "py_in (ascii ''Please try again'') (error_report e)"
proof -
  have "error_report e =
      ([0x274C] @ ascii '' Error analyzing content: '') @ str_exception e @
      ascii ''\<newline>\<newline>Please try again with different text.''"
    by (simp add: error_report_def)
  then show "py_in (str_exception e) (error_report e)"
    by (simp only: py_in_middle)
  have "error_report e =
      ([0x274C] @ ascii '' Error analyzing content: '' @ str_exception e @ ascii ''\<newline>\<newline>'') @
      ascii ''Please try again'' @ ascii '' with different text.''"
    by (simp add: error_report_def ascii_def)
  then show "py_in (ascii ''Please try again'') (error_report e)"
    by (simp only: py_in_middle)
qed

section \<open>Failures of the external calls, forwarded text, determinism\<close>

lemma example_texts_valid:
  "10 \<le> length (py_strip padded_text)" "10 \<le> length (py_strip other_text)"
  "py_strip padded_text \<noteq> padded_text"
  "take 512 padded_text = padded_text" "take 512 other_text = other_text"
  "padded_text \<noteq> other_text"
  by (simp_all add: padded_text_def other_text_def py_strip_def is_space_def ascii_def)

lemma fixed_env_simps:
  "retriever (fixed_env (Some d) res) = Some (\<lambda>_. d)"
  "retriever (fixed_env None res) = None"
  "llm (fixed_env docs res) = (\<lambda>_. res)"
  "unicode_upper (fixed_env docs res) = identity_upper"
  by (simp_all add: fixed_env_def)

text \<open>
  Claim C1, as amended. When the similarity lookup raises, the analysis is aborted: the
  function returns the error report with the text of the exception and the invitation to
  try again, the classifier is not called, and the text returned is no rendered report.
\<close>

theorem lookup_error_aborts_analysis:
  assumes "10 \<le> length (py_strip text)" and "retriever E = Some r" and "r text = Inl e"
  shows "analyze_news E text = (error_report e, [RetrieverCall text]) \<and>
         (\<forall>U b n. error_report e \<noteq> build_report U b n)"
  using assms
  by (simp add: analyze_news_valid try_body_lookup_error error_report_not_report)

theorem lookup_error_aborts_analysis_witness:
  "10 \<le> length (py_strip padded_text) \<and>
   analyze_news (fixed_env index_down scenario_label) padded_text =
     (error_report (Raised (ascii ''Could not connect to the index'')),
      [RetrieverCall padded_text])"
  using lookup_error_aborts_analysis [of padded_text "fixed_env index_down scenario_label"
          "\<lambda>_. Inl (Raised (ascii ''Could not connect to the index''))"
          "Raised (ascii ''Could not connect to the index'')"]
  by (simp add: example_texts_valid fixed_env_simps index_down_def)

theorem lookup_error_counterexample:
  "fst (analyze_news (fixed_env index_down scenario_label) padded_text) =
     error_report (Raised (ascii ''Could not connect to the index'')) \<and>
   fst (analyze_news (fixed_env index_down scenario_label) padded_text) \<noteq>
     build_report identity_upper (entry ''LABEL_1'' (92 / 100)) 0 \<and>
   snd (analyze_news (fixed_env index_down scenario_label) padded_text) =
     [RetrieverCall padded_text]"
  by (simp add: analyze_news_valid example_texts_valid
      try_body_lookup_error [where r = "\<lambda>_. Inl (Raised (ascii ''Could not connect to the index''))"]
      fixed_env_simps index_down_def error_report_not_report)

text \<open>
  Claim C8. When the classifier call raises, the function returns the error report: it
  carries the text of the exception and the invitation to try again. The classifier was
  called once and is not called again, and the text returned is no rendered report.
\<close>

theorem classifier_error_is_reported:
  assumes "10 \<le> length (py_strip text)" and "retriever E = Some r" and "r text = Inr docs"
    and "llm E (take 512 text) = Inl e"
  shows "analyze_news E text = (error_report e, [RetrieverCall text, LlmCall (take 512 text)]) \<and>
         py_in (str_exception e) (error_report e) \<and>
         py_in (ascii ''Please try again'') (error_report e) \<and>
         (\<forall>U b n. error_report e \<noteq> build_report U b n)"
  using assms
  by (simp add: analyze_news_valid try_body_classifier_error error_report_not_report
      error_report_parts)

theorem classifier_error_is_reported_witness:
  "10 \<le> length (py_strip padded_text) \<and>
   analyze_news (fixed_env three_docs classifier_down) padded_text =
     (error_report (Raised (ascii ''model is unreachable'')),
      [RetrieverCall padded_text, LlmCall padded_text])"
  using classifier_error_is_reported [of padded_text "fixed_env three_docs classifier_down"
          "\<lambda>_. Inr [(), (), ()]" "[(), (), ()]" "Raised (ascii ''model is unreachable'')"]
  by (simp add: example_texts_valid fixed_env_simps three_docs_def classifier_down_def)

text \<open>
  Claim C5, as amended. For an input that passes validation, the text forwarded is the
  raw input, not the trimmed one: the similarity lookup receives the whole input as it was
  given, and, when the lookup returns, the classifier receives the first 512 code points
  of that same raw input.
\<close>

theorem raw_text_is_forwarded:
  assumes "10 \<le> length (py_strip text)" and "retriever E = Some r"
  shows "snd (analyze_news E text) =
           (case r text of
              Inl e \<Rightarrow> [RetrieverCall text]
            | Inr docs \<Rightarrow> [RetrieverCall text, LlmCall (take 512 text)]) \<and>
         length (take 512 text) = min (length text) 512 \<and> prefix (take 512 text) text"
proof -
  have "snd (try_body E text) =
           (case r text of
              Inl e \<Rightarrow> [RetrieverCall text]
            | Inr docs \<Rightarrow> [RetrieverCall text, LlmCall (take 512 text)])"
    using assms(2) by (simp add: try_body_def Let_def split: sum.splits list.splits)
  moreover have "snd (analyze_news E text) = snd (try_body E text)"
    using assms(1) by (simp add: analyze_news_valid split: prod.splits sum.splits)
  ultimately show ?thesis
    by (simp add: take_is_prefix)
qed

theorem raw_text_is_forwarded_witness:
  "10 \<le> length (py_strip padded_text) \<and>
   snd (analyze_news (fixed_env three_docs scenario_label) padded_text) =
     [RetrieverCall padded_text, LlmCall padded_text]"
  using raw_text_is_forwarded [of padded_text "fixed_env three_docs scenario_label"
          "\<lambda>_. Inr [(), (), ()]"]
  by (simp add: example_texts_valid fixed_env_simps three_docs_def)

theorem trimmed_text_counterexample:
  "snd (analyze_news (fixed_env three_docs scenario_label) padded_text) =
     [RetrieverCall padded_text, LlmCall padded_text] \<and>
   py_strip padded_text \<noteq> padded_text \<and>
   snd (analyze_news (fixed_env three_docs scenario_label) padded_text) \<noteq>
     [RetrieverCall (py_strip padded_text), LlmCall (take 512 (py_strip padded_text))]"
proof -
  have "snd (analyze_news (fixed_env three_docs scenario_label) padded_text) =
      snd (try_body (fixed_env three_docs scenario_label) padded_text)"
    by (simp add: analyze_news_valid example_texts_valid split: prod.splits sum.splits)
  also have "\<dots> = [RetrieverCall padded_text, LlmCall padded_text]"
    by (simp add: try_body_def Let_def fixed_env_simps three_docs_def example_texts_valid
        split: sum.splits list.splits)
  finally show ?thesis
    using example_texts_valid(3) by simp
qed

text \<open>
  Claim C9. The report is a function of the selected entry and of the number of retrieved
  documents, and of nothing else. Two runs, on any two inputs that pass validation and in
  any two environments with the same upper-case mapping, whose classification results
  select the same entry (as two equal results do) and whose lookups return the same number
  of documents, return the same text, code point for code point.
\<close>

theorem report_is_deterministic:
  assumes "10 \<le> length (py_strip text)" and "10 \<le> length (py_strip text')"
    and "retriever E = Some r" and "r text = Inr docs"
    and "retriever E' = Some r'" and "r' text' = Inr docs'"
    and "length docs = length docs'"
    and "llm E (take 512 text) = Inr (result # rest)"
    and "llm E' (take 512 text') = Inr (result' # rest')"
    and "py_max score result = py_max score result'"
    and "unicode_upper E = unicode_upper E'"
  shows "fst (analyze_news E text) = fst (analyze_news E' text')"
  using assms
  by (cases "py_max score result'")
    (simp_all add: analyze_news_valid try_body_classified [of E r "text" docs result rest]
      try_body_classified [of E' r' "text'" docs' result' rest'])

theorem report_is_deterministic_witness:
  "10 \<le> length (py_strip padded_text) \<and> 10 \<le> length (py_strip other_text) \<and>
   padded_text \<noteq> other_text \<and>
   fst (analyze_news (fixed_env three_docs scenario_fake) padded_text) =
   fst (analyze_news (fixed_env three_docs scenario_fake) other_text)"
  using report_is_deterministic [of padded_text other_text
          "fixed_env three_docs scenario_fake" "\<lambda>_. Inr [(), (), ()]" "[(), (), ()]"
          "fixed_env three_docs scenario_fake" "\<lambda>_. Inr [(), (), ()]" "[(), (), ()]"
          "[entry ''FAKE'' (81 / 100), entry ''REAL'' (19 / 100)]" "[]"
          "[entry ''FAKE'' (81 / 100), entry ''REAL'' (19 / 100)]" "[]"]
  by (simp add: example_texts_valid fixed_env_simps three_docs_def scenario_fake_def)

section \<open>What a report shows\<close>

lemma py_in_skip: "py_in sub t \<Longrightarrow> py_in sub (a @ t)"
  by (simp add: py_in_sublist sublist_append)

lemma py_in_here3: "py_in (x @ y @ z) (x @ y @ z @ t)"
  using py_in_middle [of "x @ y @ z" "[]" t] by simp

lemma report_shows_confidence:
  "py_in (ascii ''**Confidence Level:** '' @ fmt_percent1 (score b) @ ascii ''  \<newline>'')
     (build_report U b n)"
  unfolding build_report_eq analysis_head_def
  by (simp only: append_assoc) (rule py_in_here3 | rule py_in_skip)+

lemma report_shows_headline:
  "py_in (ascii ''; margin: 0;'>'' @ fst (credibility U (label b)) @ ascii ''</h3>\<newline>'')
     (build_report U b n)"
  unfolding build_report_eq analysis_head_def
  by (simp only: append_assoc) (rule py_in_here3 | rule py_in_skip)+

lemma report_shows_count:
  "py_in (ascii ''**Similar Patterns Found:** '' @ str_of_nat n @
          ascii '' matches in our database\<newline>'')
     (build_report U b n)"
  unfolding build_report_eq analysis_head_def
  by (simp only: append_assoc) (rule py_in_here3 | rule py_in_skip)+

lemma report_ends_with_tip: "suffix literacy_tip (build_report U b n)"
  unfolding build_report_eq by (simp add: suffix_def)

lemma advice_recommendations_iff:
  "advice lab = recommendations \<longleftrightarrow>
     py_in (ascii ''MISLEADING'') lab \<or> py_in (ascii ''SUSPICIOUS'') lab"
  using advice_blocks_differ by (auto simp: advice_def)

lemma try_body_success:
  assumes "try_body E text = (Inr a, calls)"
  shows "\<exists>best n. a = build_report (unicode_upper E) best n"
  using assms
  by (auto simp: try_body_def Let_def split: option.splits sum.splits list.splits)

section \<open>The example runs, evaluated\<close>

lemma entry_simps: "label (entry l q) = ascii l" "score (entry l q) = round_double q"
  by (simp_all add: entry_def)

lemma example_headlines:
  "credibility U (ascii ''LABEL_1'') = (LIKELY_CREDIBLE, green)"
  "credibility U (ascii ''LABEL_0'') = (POTENTIALLY_MISLEADING, red)"
  "credibility U (ascii ''REAL'') = (LIKELY_CREDIBLE, green)"
  "credibility U (ascii ''FAKE'') = (POTENTIALLY_MISLEADING, red)"
  "credibility U (ascii ''POSITIVE'') = (CREDIBLE, green)"
  "credibility U (ascii ''NEGATIVE'') = (SUSPICIOUS, red)"
  "credibility U (ascii ''NEUTRAL'') = (SUSPICIOUS, red)"
  "credibility U (ascii ''fake-or-real'') = (LIKELY_CREDIBLE, green)"
  by (simp_all add: credibility_def py_upper_def upper_cp_def ascii_def)

lemma example_label_tests:
  "py_in (ascii ''FAKE'') (py_upper U (ascii ''fake-or-real''))"
  "py_in (ascii ''REAL'') (py_upper U (ascii ''fake-or-real''))"
  "\<not> py_in (ascii ''REAL'') (py_upper U (ascii ''NEUTRAL''))"
  "\<not> py_in (ascii ''FAKE'') (py_upper U (ascii ''NEUTRAL''))"
  "\<not> py_in (ascii ''REAL'') (py_upper U (ascii ''POSITIVE''))"
  "\<not> py_in (ascii ''FAKE'') (py_upper U (ascii ''POSITIVE''))"
  "\<not> py_in (ascii ''REAL'') (py_upper U (ascii ''FAKE''))"
  "py_in (ascii ''FAKE'') (py_upper U (ascii ''FAKE''))"
  "ascii ''NEUTRAL'' \<noteq> ascii ''LABEL_1''" "ascii ''NEUTRAL'' \<noteq> ascii ''LABEL_0''"
  "ascii ''NEUTRAL'' \<noteq> ascii ''POSITIVE''"
  "ascii ''POSITIVE'' \<noteq> ascii ''LABEL_1''" "ascii ''POSITIVE'' \<noteq> ascii ''LABEL_0''"
  "ascii ''FAKE'' \<noteq> ascii ''LABEL_1''"
  by (simp_all add: py_upper_def upper_cp_def ascii_def)

lemma double_values:
  "round_double (92 / 100) = 8286623314361713 / 9007199254740992"
  "round_double (8 / 100) = 5764607523034235 / 72057594037927936"
  "round_double (81 / 100) = 1823957849085051 / 2251799813685248"
  "round_double (19 / 100) = 3422735716801577 / 18014398509481984"
  by code_simp+

lemma double_products:
  "round_double (8286623314361713 / 9007199254740992 * 100) = 92"
  "round_double (1823957849085051 / 2251799813685248 * 100) = 81"
  by code_simp+

lemma scenario_percentages:
  "fmt_percent1 (round_double (92 / 100)) = ascii ''92.0%''"
  "fmt_percent1 (round_double (81 / 100)) = ascii ''81.0%''"
  unfolding double_values fmt_percent1_def Let_def double_products
  by (simp_all add: pow2_def round_half_even_def str_of_nat.simps ascii_def)

lemma scenario_best:
  "py_max score [entry ''LABEL_1'' (92 / 100), entry ''LABEL_0'' (8 / 100)] =
     Inr (entry ''LABEL_1'' (92 / 100))"
  "py_max score [entry ''FAKE'' (81 / 100), entry ''REAL'' (19 / 100)] =
     Inr (entry ''FAKE'' (81 / 100))"
  unfolding py_max_def list.case max_loop.simps entry_simps double_values
  by simp_all

lemma run_classified:
  assumes "10 \<le> length (py_strip text)" and "retriever E = Some r" and "r text = Inr docs"
    and "llm E (take 512 text) = Inr (result # rest)" and "py_max score result = Inr best"
  shows "analyze_news E text =
     (build_report (unicode_upper E) best (length docs),
      [RetrieverCall text, LlmCall (take 512 text)])"
  using assms
  by (simp add: analyze_news_valid try_body_classified [of E r "text" docs result rest])

lemma fixed_env_run:
  assumes "10 \<le> length (py_strip t)" and "py_max score result = Inr best"
  shows "try_body (fixed_env three_docs (Inr [result])) t =
     (Inr (build_report identity_upper best 3), [RetrieverCall t, LlmCall (take 512 t)])"
  using assms
  by (simp add: try_body_classified [of _ "\<lambda>_. Inr [(), (), ()]" t "[(), (), ()]" result "[]"]
      fixed_env_simps three_docs_def numeral_3_eq_3)

section \<open>The advice block\<close>

text \<open>
  Claim C10. Every successful report contains exactly one of the two advice blocks: the
  block of recommendations if and only if the headline label contains \<open>MISLEADING\<close> or
  \<open>SUSPICIOUS\<close>, and the block of best practices otherwise. Every successful report
  ends with the digital literacy tip.
\<close>

theorem report_has_one_advice_block:
  assumes "10 \<le> length (py_strip text)" and "try_body E text = (Inr a, calls)"
  shows "fst (analyze_news E text) = a \<and>
     (\<exists>best n. a = build_report (unicode_upper E) best n \<and>
        (py_in recommendations a \<longleftrightarrow>
           py_in (ascii ''MISLEADING'') (fst (credibility (unicode_upper E) (label best))) \<or>
           py_in (ascii ''SUSPICIOUS'') (fst (credibility (unicode_upper E) (label best))))) \<and>
     (py_in best_practices a \<longleftrightarrow> \<not> py_in recommendations a) \<and>
     suffix literacy_tip a"
proof -
  from try_body_success [OF assms(2)] obtain best n where
    a: "a = build_report (unicode_upper E) best n"
    by blast
  have "fst (analyze_news E text) = a"
    using assms by (simp add: analyze_news_valid)
  moreover have "py_in recommendations a \<longleftrightarrow>
       py_in (ascii ''MISLEADING'') (fst (credibility (unicode_upper E) (label best))) \<or>
       py_in (ascii ''SUSPICIOUS'') (fst (credibility (unicode_upper E) (label best)))"
    unfolding a by (simp only: report_has_recommendations advice_recommendations_iff)
  moreover have "py_in best_practices a \<longleftrightarrow> \<not> py_in recommendations a"
    unfolding a report_has_recommendations report_has_best_practices
    using advice_blocks_differ by (auto simp: advice_def)
  moreover have "suffix literacy_tip a"
    unfolding a by (rule report_ends_with_tip)
  ultimately show ?thesis
    using a by blast
qed

theorem report_has_one_advice_block_witness:
  "10 \<le> length (py_strip padded_text) \<and>
   fst (analyze_news (fixed_env three_docs scenario_fake) padded_text) =
     build_report identity_upper (entry ''FAKE'' (81 / 100)) 3 \<and>
   py_in (ascii ''MISLEADING'') (fst (credibility identity_upper (ascii ''FAKE''))) \<and>
   py_in recommendations (build_report identity_upper (entry ''FAKE'' (81 / 100)) 3) \<and>
   \<not> py_in best_practices (build_report identity_upper (entry ''FAKE'' (81 / 100)) 3) \<and>
   suffix literacy_tip (build_report identity_upper (entry ''FAKE'' (81 / 100)) 3)"
  using report_has_one_advice_block [of padded_text "fixed_env three_docs scenario_fake"
          "build_report identity_upper (entry ''FAKE'' (81 / 100)) 3"
          "[RetrieverCall padded_text, LlmCall padded_text]"]
        fixed_env_run [of padded_text "[entry ''FAKE'' (81 / 100), entry ''REAL'' (19 / 100)]"
          "entry ''FAKE'' (81 / 100)"]
  by (simp add: example_texts_valid scenario_best scenario_fake_def report_has_recommendations
      report_has_best_practices entry_simps example_headlines advice_of_headline
      headline_tests advice_blocks_differ)

section \<open>From the label to the verdict\<close>

lemma credibility_credible:
  "l = ascii ''LABEL_1'' \<or> py_in (ascii ''REAL'') (py_upper U l) \<Longrightarrow>
     credibility U l = (LIKELY_CREDIBLE, green)"
  by (simp add: credibility_def)

lemma credibility_misleading:
  "l \<noteq> ascii ''LABEL_1'' \<Longrightarrow> \<not> py_in (ascii ''REAL'') (py_upper U l) \<Longrightarrow>
   l = ascii ''LABEL_0'' \<or> py_in (ascii ''FAKE'') (py_upper U l) \<Longrightarrow>
     credibility U l = (POTENTIALLY_MISLEADING, red)"
  by (simp add: credibility_def)

lemma credibility_fallback:
  "l \<noteq> ascii ''LABEL_1'' \<Longrightarrow> \<not> py_in (ascii ''REAL'') (py_upper U l) \<Longrightarrow>
   l \<noteq> ascii ''LABEL_0'' \<Longrightarrow> \<not> py_in (ascii ''FAKE'') (py_upper U l) \<Longrightarrow>
     credibility U l =
       (if l = ascii ''POSITIVE'' then (CREDIBLE, green) else (SUSPICIOUS, red))"
  by (simp add: credibility_def)

lemma py_in_here: "py_in sub (sub @ t)"
  using py_in_middle [of sub "[]" t] by simp

lemma fact_checking_advice:
  "py_in (ascii ''**Use fact-checking sites** like Snopes or FactCheck.org'') recommendations"
proof -
  have eq: "ascii '' **Use fact-checking sites** like Snopes or FactCheck.org\<newline>'' =
      ascii '' '' @ ascii ''**Use fact-checking sites** like Snopes or FactCheck.org'' @
      ascii ''\<newline>''"
    by (simp add: ascii_def)
  show ?thesis
    unfolding recommendations_def eq
    by (rule py_in_here | rule py_in_skip)+
qed

text \<open>
  Claim C2, as amended. For every non-empty classification result of a run whose lookup
  returned, the report is computed from the first entry with the maximum score. The test
  for the credible class comes first: a label equal to \<open>LABEL_1\<close>, or whose upper-case
  form contains \<open>REAL\<close>, gives the headline of the credible category; a label that
  fails this test and is equal to \<open>LABEL_0\<close>, or whose upper-case form contains
  \<open>FAKE\<close>, gives the headline of the misleading category with the block of
  recommendations. The report shows the headline and the score of the selected entry in the
  format \<open>.1%\<close>. For the result \<open>[("LABEL_1", 0.92), ("LABEL_0", 0.08)]\<close> the
  headline is the credible one and the confidence reads \<open>92.0%\<close>; for
  \<open>[("FAKE", 0.81), ("REAL", 0.19)]\<close> the headline is the misleading one, the
  confidence reads \<open>81.0%\<close> and the advice recommends fact-checking sites.
\<close>

theorem verdict_from_best_entry:
  assumes "10 \<le> length (py_strip text)" and "retriever E = Some r" and "r text = Inr docs"
    and "llm E (take 512 text) = Inr (result # rest)" and "result \<noteq> []"
  shows "\<exists>pre best post.
     result = pre @ best # post \<and>
     (\<forall>x\<in>set pre. score x < score best) \<and> (\<forall>x\<in>set post. score x \<le> score best) \<and>
     fst (analyze_news E text) = build_report (unicode_upper E) best (length docs) \<and>
     py_in (ascii ''; margin: 0;'>'' @ fst (credibility (unicode_upper E) (label best)) @
            ascii ''</h3>\<newline>'') (fst (analyze_news E text)) \<and>
     py_in (ascii ''**Confidence Level:** '' @ fmt_percent1 (score best) @ ascii ''  \<newline>'')
       (fst (analyze_news E text)) \<and>
     (label best = ascii ''LABEL_1'' \<or>
      py_in (ascii ''REAL'') (py_upper (unicode_upper E) (label best)) \<longrightarrow>
        fst (credibility (unicode_upper E) (label best)) = LIKELY_CREDIBLE \<and>
        category_of (fst (credibility (unicode_upper E) (label best))) = Credible) \<and>
     (label best \<noteq> ascii ''LABEL_1'' \<and>
      \<not> py_in (ascii ''REAL'') (py_upper (unicode_upper E) (label best)) \<and>
      (label best = ascii ''LABEL_0'' \<or>
       py_in (ascii ''FAKE'') (py_upper (unicode_upper E) (label best))) \<longrightarrow>
        fst (credibility (unicode_upper E) (label best)) = POTENTIALLY_MISLEADING \<and>
        category_of (fst (credibility (unicode_upper E) (label best))) = Misleading \<and>
        py_in recommendations (fst (analyze_news E text))) \<and>
     (result = [entry ''LABEL_1'' (92 / 100), entry ''LABEL_0'' (8 / 100)] \<longrightarrow>
        best = entry ''LABEL_1'' (92 / 100) \<and>
        fst (credibility (unicode_upper E) (label best)) = LIKELY_CREDIBLE \<and>
        fmt_percent1 (score best) = ascii ''92.0%'') \<and>
     (result = [entry ''FAKE'' (81 / 100), entry ''REAL'' (19 / 100)] \<longrightarrow>
        best = entry ''FAKE'' (81 / 100) \<and>
        fst (credibility (unicode_upper E) (label best)) = POTENTIALLY_MISLEADING \<and>
        fmt_percent1 (score best) = ascii ''81.0%'' \<and>
        py_in recommendations (fst (analyze_news E text)) \<and>
        py_in (ascii ''**Use fact-checking sites** like Snopes or FactCheck.org'')
          recommendations)"
proof -
  let ?U = "unicode_upper E"
  from py_max_split [OF assms(5), of score] obtain pre best post where
    s: "result = pre @ best # post" and b: "py_max score result = Inr best" and
    lt: "\<forall>x\<in>set pre. score x < score best" and le: "\<forall>x\<in>set post. score x \<le> score best"
    by blast
  have run: "fst (analyze_news E text) = build_report ?U best (length docs)"
    using run_classified [OF assms(1-4) b] by simp
  have headline: "py_in (ascii ''; margin: 0;'>'' @ fst (credibility ?U (label best)) @
            ascii ''</h3>\<newline>'') (fst (analyze_news E text))"
    unfolding run by (rule report_shows_headline)
  have confidence: "py_in (ascii ''**Confidence Level:** '' @ fmt_percent1 (score best) @
            ascii ''  \<newline>'') (fst (analyze_news E text))"
    unfolding run by (rule report_shows_confidence)
  have credible: "label best = ascii ''LABEL_1'' \<or>
      py_in (ascii ''REAL'') (py_upper ?U (label best)) \<longrightarrow>
        fst (credibility ?U (label best)) = LIKELY_CREDIBLE \<and>
        category_of (fst (credibility ?U (label best))) = Credible"
    by (simp add: credibility_credible category_of_headline)
  have misleading: "label best \<noteq> ascii ''LABEL_1'' \<and>
      \<not> py_in (ascii ''REAL'') (py_upper ?U (label best)) \<and>
      (label best = ascii ''LABEL_0'' \<or> py_in (ascii ''FAKE'') (py_upper ?U (label best))) \<longrightarrow>
        fst (credibility ?U (label best)) = POTENTIALLY_MISLEADING \<and>
        category_of (fst (credibility ?U (label best))) = Misleading \<and>
        py_in recommendations (fst (analyze_news E text))"
    unfolding run
    by (simp add: credibility_misleading category_of_headline report_has_recommendations
        advice_of_headline)
  have first: "result = [entry ''LABEL_1'' (92 / 100), entry ''LABEL_0'' (8 / 100)] \<longrightarrow>
        best = entry ''LABEL_1'' (92 / 100) \<and>
        fst (credibility ?U (label best)) = LIKELY_CREDIBLE \<and>
        fmt_percent1 (score best) = ascii ''92.0%''"
  proof
    assume "result = [entry ''LABEL_1'' (92 / 100), entry ''LABEL_0'' (8 / 100)]"
    with b scenario_best(1) have "best = entry ''LABEL_1'' (92 / 100)"
      by simp
    then show "best = entry ''LABEL_1'' (92 / 100) \<and>
        fst (credibility ?U (label best)) = LIKELY_CREDIBLE \<and>
        fmt_percent1 (score best) = ascii ''92.0%''"
      by (simp only: entry_simps example_headlines scenario_percentages fst_conv)
  qed
  have second: "result = [entry ''FAKE'' (81 / 100), entry ''REAL'' (19 / 100)] \<longrightarrow>
        best = entry ''FAKE'' (81 / 100) \<and>
        fst (credibility ?U (label best)) = POTENTIALLY_MISLEADING \<and>
        fmt_percent1 (score best) = ascii ''81.0%'' \<and>
        py_in recommendations (fst (analyze_news E text)) \<and>
        py_in (ascii ''**Use fact-checking sites** like Snopes or FactCheck.org'')
          recommendations"
  proof
    assume "result = [entry ''FAKE'' (81 / 100), entry ''REAL'' (19 / 100)]"
    with b scenario_best(2) have e: "best = entry ''FAKE'' (81 / 100)"
      by simp
    have "py_in recommendations (build_report ?U (entry ''FAKE'' (81 / 100)) (length docs))"
      by (simp only: report_has_recommendations entry_simps example_headlines fst_conv
          advice_of_headline)
    then show "best = entry ''FAKE'' (81 / 100) \<and>
        fst (credibility ?U (label best)) = POTENTIALLY_MISLEADING \<and>
        fmt_percent1 (score best) = ascii ''81.0%'' \<and>
        py_in recommendations (fst (analyze_news E text)) \<and>
        py_in (ascii ''**Use fact-checking sites** like Snopes or FactCheck.org'')
          recommendations"
      unfolding run e
      by (simp only: entry_simps example_headlines scenario_percentages fst_conv
          fact_checking_advice simp_thms)
  qed
  from s lt le run headline confidence credible misleading first second
  show ?thesis
    by blast
qed

theorem verdict_from_best_entry_witness:
  "10 \<le> length (py_strip padded_text) \<and>
   [entry ''LABEL_1'' (92 / 100), entry ''LABEL_0'' (8 / 100)] \<noteq> [] \<and>
   fst (analyze_news (fixed_env three_docs scenario_label) padded_text) =
     build_report identity_upper (entry ''LABEL_1'' (92 / 100)) 3 \<and>
   fst (credibility identity_upper (ascii ''LABEL_1'')) = LIKELY_CREDIBLE \<and>
   py_in (ascii ''**Confidence Level:** '' @ ascii ''92.0%'' @ ascii ''  \<newline>'')
     (fst (analyze_news (fixed_env three_docs scenario_label) padded_text))"
proof -
  let ?E = "fixed_env three_docs scenario_label"
  let ?result = "[entry ''LABEL_1'' (92 / 100), entry ''LABEL_0'' (8 / 100)]"
  have v: "10 \<le> length (py_strip padded_text)"
    by (rule example_texts_valid)
  have r: "retriever ?E = Some (\<lambda>_. Inr [(), (), ()])"
    by (simp add: fixed_env_simps three_docs_def)
  have d: "(\<lambda>_. Inr [(), (), ()]) padded_text = (Inr [(), (), ()] :: py_exception + unit list)"
    by simp
  have c: "llm ?E (take 512 padded_text) = Inr (?result # [])"
    by (simp add: fixed_env_simps scenario_label_def)
  have n: "?result \<noteq> []"
    by simp
  from verdict_from_best_entry [OF v r d c n] obtain best where
    run: "fst (analyze_news ?E padded_text) =
            build_report (unicode_upper ?E) best (length [(), (), ()])" and
    conf: "py_in (ascii ''**Confidence Level:** '' @ fmt_percent1 (score best) @
                  ascii ''  \<newline>'') (fst (analyze_news ?E padded_text))" and
    sc: "best = entry ''LABEL_1'' (92 / 100) \<and>
         fst (credibility (unicode_upper ?E) (label best)) = LIKELY_CREDIBLE \<and>
         fmt_percent1 (score best) = ascii ''92.0%''"
    by blast
  from sc have b: "best = entry ''LABEL_1'' (92 / 100)"
    and h: "fst (credibility (unicode_upper ?E) (label best)) = LIKELY_CREDIBLE"
    and f: "fmt_percent1 (score best) = ascii ''92.0%''"
    by blast+
  from conf have "py_in (ascii ''**Confidence Level:** '' @ ascii ''92.0%'' @
                  ascii ''  \<newline>'') (fst (analyze_news ?E padded_text))"
    unfolding f .
  moreover from run have "fst (analyze_news ?E padded_text) =
     build_report identity_upper (entry ''LABEL_1'' (92 / 100)) 3"
    unfolding b by (simp add: fixed_env_simps numeral_3_eq_3)
  moreover from h have "fst (credibility identity_upper (ascii ''LABEL_1'')) = LIKELY_CREDIBLE"
    unfolding b by (simp add: fixed_env_simps entry_simps)
  ultimately show ?thesis
    using v by simp
qed

lemma singleton_run:
  assumes "10 \<le> length (py_strip t)"
  shows "fst (analyze_news (fixed_env three_docs (Inr [[x]])) t) = build_report identity_upper x 3"
  using assms fixed_env_run [of t "[x]" x]
  by (simp add: analyze_news_valid py_max_def)

theorem fake_label_counterexample:
  "py_in (ascii ''FAKE'') (py_upper identity_upper (ascii ''fake-or-real'')) \<and>
   fst (analyze_news (fixed_env three_docs scenario_mixed) padded_text) =
     build_report identity_upper (entry ''fake-or-real'' (9 / 10)) 3 \<and>
   fst (credibility identity_upper (label (entry ''fake-or-real'' (9 / 10)))) = LIKELY_CREDIBLE \<and>
   category_of LIKELY_CREDIBLE = Credible \<and>
   \<not> py_in recommendations (build_report identity_upper (entry ''fake-or-real'' (9 / 10)) 3)"
  by (simp add: example_label_tests scenario_mixed_def singleton_run example_texts_valid
      entry_simps example_headlines category_of_headline report_has_recommendations
      advice_of_headline advice_blocks_differ [symmetric])

text \<open>
  Claim C6, as amended. For a selected label that is neither \<open>LABEL_1\<close> nor
  \<open>LABEL_0\<close> and whose upper-case form contains neither \<open>REAL\<close> nor \<open>FAKE\<close>,
  no configured mapping is consulted: the built-in fallback for sentiment models decides.
  The label \<open>POSITIVE\<close> gives the headline \<open>CREDIBLE\<close> of the credible category;
  every other label defaults to the headline \<open>SUSPICIOUS\<close> of the misleading category,
  with the block of recommendations.
\<close>

theorem unrecognized_label_falls_back:
  assumes "l \<noteq> ascii ''LABEL_1''" and "\<not> py_in (ascii ''REAL'') (py_upper U l)"
    and "l \<noteq> ascii ''LABEL_0''" and "\<not> py_in (ascii ''FAKE'') (py_upper U l)"
  shows "credibility U l =
           (if l = ascii ''POSITIVE'' then (CREDIBLE, green) else (SUSPICIOUS, red)) \<and>
         category_of (fst (credibility U l)) =
           (if l = ascii ''POSITIVE'' then Credible else Misleading) \<and>
         advice (fst (credibility U l)) =
           (if l = ascii ''POSITIVE'' then best_practices else recommendations)"
  using assms
  by (simp add: credibility_fallback category_of_headline advice_of_headline)

theorem unrecognized_label_falls_back_witness:
  "ascii ''NEUTRAL'' \<noteq> ascii ''LABEL_1'' \<and>
   \<not> py_in (ascii ''REAL'') (py_upper identity_upper (ascii ''NEUTRAL'')) \<and>
   ascii ''NEUTRAL'' \<noteq> ascii ''LABEL_0'' \<and>
   \<not> py_in (ascii ''FAKE'') (py_upper identity_upper (ascii ''NEUTRAL'')) \<and>
   credibility identity_upper (ascii ''NEUTRAL'') = (SUSPICIOUS, red) \<and>
   category_of (fst (credibility identity_upper (ascii ''NEUTRAL''))) = Misleading \<and>
   advice (fst (credibility identity_upper (ascii ''NEUTRAL''))) = recommendations \<and>
   credibility identity_upper (ascii ''POSITIVE'') = (CREDIBLE, green)"
  using unrecognized_label_falls_back [of "ascii ''NEUTRAL''" identity_upper]
        unrecognized_label_falls_back [of "ascii ''POSITIVE''" identity_upper]
  by (simp add: example_label_tests category_of_headline advice_of_headline)

theorem default_category_counterexample:
  "\<not> py_in (ascii ''REAL'') (py_upper identity_upper (ascii ''NEUTRAL'')) \<and>
   \<not> py_in (ascii ''FAKE'') (py_upper identity_upper (ascii ''NEUTRAL'')) \<and>
   fst (analyze_news (fixed_env three_docs scenario_neutral) padded_text) =
     build_report identity_upper (entry ''NEUTRAL'' (9 / 10)) 3 \<and>
   credibility identity_upper (label (entry ''NEUTRAL'' (9 / 10))) = (SUSPICIOUS, red) \<and>
   category_of SUSPICIOUS = Misleading \<and>
   py_in recommendations (build_report identity_upper (entry ''NEUTRAL'' (9 / 10)) 3)"
  by (simp add: example_label_tests scenario_neutral_def singleton_run example_texts_valid
      entry_simps example_headlines category_of_headline report_has_recommendations
      advice_of_headline)

text \<open>
  Claim C7, as amended. In every successful report the headline label is one of exactly
  four fixed strings, two for each category: \<open>LIKELY CREDIBLE\<close> and \<open>CREDIBLE\<close> for
  the credible category, \<open>POTENTIALLY MISLEADING\<close> and \<open>SUSPICIOUS\<close> for the
  misleading one; each of the four is the headline of some label. The advice block is one
  fixed block for the misleading category and a different fixed block for the credible
  category, and it stands between the head of the report and the closing tip.
\<close>

theorem headline_is_one_of_four:
  "fst (credibility U (label b)) \<in>
     {LIKELY_CREDIBLE, CREDIBLE, POTENTIALLY_MISLEADING, SUSPICIOUS} \<and>
   (category_of (fst (credibility U (label b))) = Credible \<longleftrightarrow>
      fst (credibility U (label b)) \<in> {LIKELY_CREDIBLE, CREDIBLE}) \<and>
   (category_of (fst (credibility U (label b))) = Misleading \<longleftrightarrow>
      fst (credibility U (label b)) \<in> {POTENTIALLY_MISLEADING, SUSPICIOUS}) \<and>
   advice (fst (credibility U (label b))) =
     (case category_of (fst (credibility U (label b))) of
        Credible \<Rightarrow> best_practices | Misleading \<Rightarrow> recommendations) \<and>
   recommendations \<noteq> best_practices \<and>
   distinct [LIKELY_CREDIBLE, CREDIBLE, POTENTIALLY_MISLEADING, SUSPICIOUS] \<and>
   fst (credibility U (ascii ''LABEL_1'')) = LIKELY_CREDIBLE \<and>
   fst (credibility U (ascii ''POSITIVE'')) = CREDIBLE \<and>
   fst (credibility U (ascii ''LABEL_0'')) = POTENTIALLY_MISLEADING \<and>
   fst (credibility U (ascii ''NEGATIVE'')) = SUSPICIOUS \<and>
   py_in (ascii ''; margin: 0;'>'' @ fst (credibility U (label b)) @ ascii ''</h3>\<newline>'')
     (build_report U b n) \<and>
   suffix (advice (fst (credibility U (label b))) @ literacy_tip) (build_report U b n)"
proof -
  have "suffix (advice (fst (credibility U (label b))) @ literacy_tip) (build_report U b n)"
    unfolding build_report_eq by (simp add: suffix_def)
  moreover have "distinct [LIKELY_CREDIBLE, CREDIBLE, POTENTIALLY_MISLEADING, SUSPICIOUS]"
    using headlines_distinct by simp
  ultimately show ?thesis
    using headline_cases [of U "label b"] report_shows_headline [of U b n]
    by (auto simp: category_of_headline advice_of_headline advice_blocks_differ
        example_headlines headlines_distinct headlines_distinct [symmetric])
qed

theorem two_headlines_counterexample:
  "category_of (fst (credibility identity_upper (ascii ''LABEL_1''))) = Credible \<and>
   category_of (fst (credibility identity_upper (ascii ''POSITIVE''))) = Credible \<and>
   fst (credibility identity_upper (ascii ''LABEL_1'')) \<noteq>
   fst (credibility identity_upper (ascii ''POSITIVE''))"
  by (simp add: example_headlines category_of_headline headlines_distinct)

end
